theory Spec2Isabelle
  imports Main "HOL-Library.Multiset"
begin

section \<open>Strings, failures and the process environment\<close>

text \<open>
  \<^verbatim>\<open>std::string\<close> and \<^verbatim>\<open>winrt::hstring\<close> are both modelled as lists of code units, so
  that \<^verbatim>\<open>winrt::to_hstring\<close> and \<^verbatim>\<open>winrt::to_string\<close> are the identity. The length of a
  list is the number of \<^verbatim>\<open>wchar_t\<close> units that the environment block stores for it.
\<close>

type_synonym hstring = string

datatype failure =
    AssertionFailed string
  | HResultError string
  | UnterminatedArray

text \<open>
  \<open>AssertionFailed\<close> is a failed \<^verbatim>\<open>assert\<close> (the source defines no \<^verbatim>\<open>NDEBUG\<close>, so the
  macro is active and aborts the process); \<open>HResultError\<close> is an exception thrown by the
  Windows Runtime; \<open>UnterminatedArray\<close> marks the undefined behaviour of reading a
  \<^verbatim>\<open>wchar_t\<close> array that holds no terminator.
\<close>

definition bind_result :: "failure + 'a \<Rightarrow> ('a \<Rightarrow> failure + 'b) \<Rightarrow> failure + 'b" where
  "bind_result r f = (case r of Inl e \<Rightarrow> Inl e | Inr x \<Rightarrow> f x)"

definition NUL :: char where
  "NUL = CHR 0x00"

record environment =
  mock_endpoint_var :: "hstring option"
  stack_contents :: hstring

text \<open>
  \<open>mock_endpoint_var\<close> is the value of \<^verbatim>\<open>UP4W_MS_STORE_MOCK_ENDPOINT\<close> (\<open>None\<close> when the
  variable is not set); \<open>stack_contents\<close> is whatever the uninitialised array
  \<^verbatim>\<open>wchar_t endpoint[20]\<close> holds when \<^verbatim>\<open>readStoreMockEndpoint\<close> is entered.

  \<^verbatim>\<open>GetEnvironmentVariableW(name, buffer, size)\<close>: returns 0 when the variable is not
  found; stores the value and a terminator and returns the number of characters stored
  (without the terminator, so 0 for an empty value) when the buffer is large enough;
  otherwise returns the size
  the buffer needs, terminator included, and leaves the buffer's contents undefined
  (here: as they were, which is arbitrary already).
\<close>

definition GetEnvironmentVariableW :: "hstring option \<Rightarrow> hstring \<Rightarrow> nat \<Rightarrow> nat \<times> hstring" where
  "GetEnvironmentVariableW var buffer nSize =
     (case var of
        None \<Rightarrow> (0, buffer)
      | Some v \<Rightarrow>
          if length v < nSize then (length v, v @ NUL # drop (Suc (length v)) buffer)
          else (Suc (length v), buffer))"

text \<open>Conversion of a \<^verbatim>\<open>wchar_t\<close> array to \<^verbatim>\<open>winrt::hstring\<close>: the units before the
  first terminator.\<close>

definition hstring_of_array :: "hstring \<Rightarrow> failure + hstring" where
  "hstring_of_array a =
     (if NUL \<in> set a then Inr (takeWhile (\<lambda>c. c \<noteq> NUL) a) else Inl UnterminatedArray)"

definition endpointSize :: nat where
  "endpointSize = 20"

definition readStoreMockEndpoint :: "environment \<Rightarrow> failure + hstring" where
  "readStoreMockEndpoint env =
     (case GetEnvironmentVariableW (mock_endpoint_var env) (stack_contents env) endpointSize of
        (n, endpoint) \<Rightarrow>
          if 0 = n then Inr ''127.0.0.1:9''
          else hstring_of_array endpoint)"

section \<open>JSON values\<close>

text \<open>
  The values of \<^verbatim>\<open>Windows.Data.Json\<close>. An object lists its members; a lookup finds the
  first member of the name. The typed getters throw when the member is absent or has
  another type.
\<close>

datatype IJsonValue =
    JsonNull
  | JsonBoolean bool
  | JsonNumber string
  | JsonString hstring
  | JsonArray "IJsonValue list"
  | JsonObject "(hstring \<times> IJsonValue) list"

type_synonym JsonObject = "(hstring \<times> IJsonValue) list"

definition GetNamedString :: "JsonObject \<Rightarrow> hstring \<Rightarrow> failure + hstring" where
  "GetNamedString obj name =
     (case map_of obj name of
        None \<Rightarrow> Inl (HResultError ''JSON value not found'')
      | Some (JsonString s) \<Rightarrow> Inr s
      | Some _ \<Rightarrow> Inl (HResultError ''JSON value is not a string''))"

definition GetNamedBoolean :: "JsonObject \<Rightarrow> hstring \<Rightarrow> failure + bool" where
  "GetNamedBoolean obj name =
     (case map_of obj name of
        None \<Rightarrow> Inl (HResultError ''JSON value not found'')
      | Some (JsonBoolean b) \<Rightarrow> Inr b
      | Some _ \<Rightarrow> Inl (HResultError ''JSON value is not a boolean''))"

definition GetNamedArray :: "JsonObject \<Rightarrow> hstring \<Rightarrow> failure + IJsonValue list" where
  "GetNamedArray obj name =
     (case map_of obj name of
        None \<Rightarrow> Inl (HResultError ''JSON value not found'')
      | Some (JsonArray a) \<Rightarrow> Inr a
      | Some _ \<Rightarrow> Inl (HResultError ''JSON value is not an array''))"

definition GetObject :: "IJsonValue \<Rightarrow> failure + JsonObject" where
  "GetObject v =
     (case v of JsonObject obj \<Rightarrow> Inr obj | _ \<Rightarrow> Inl (HResultError ''JSON value is not an object''))"

definition GetString :: "IJsonValue \<Rightarrow> failure + hstring" where
  "GetString v =
     (case v of JsonString s \<Rightarrow> Inr s | _ \<Rightarrow> Inl (HResultError ''JSON value is not a string''))"

section \<open>The request builder\<close>

text \<open>
  \<^verbatim>\<open>UrlParams\<close> is \<^verbatim>\<open>std::unordered_multimap<hstring, hstring>\<close>. The source only
  inserts into it, asks whether it is empty and iterates over it. The model keeps the
  pairs in the order of their insertion; the order in which the container iterates over
  them is decided by the standard library (hashing, bucket count) and is a parameter,
  \<open>iteration_order\<close> below. The C++ standard promises that iteration visits every
  inserted pair once and that pairs with equivalent keys are adjacent.
\<close>

type_synonym UrlParams = "(hstring \<times> hstring) list"

definition insert_pair :: "UrlParams \<Rightarrow> hstring \<times> hstring \<Rightarrow> UrlParams" where
  "insert_pair params kv = params @ [kv]"

datatype Uri = Uri hstring hstring

text \<open>\<open>Uri base relative\<close> is the result of the two-argument constructor
  \<^verbatim>\<open>Uri{baseUri, relativeUri}\<close>.\<close>

record platform =
  iteration_order :: "UrlParams \<Rightarrow> (hstring \<times> hstring) list"
  url_encode :: "hstring \<Rightarrow> hstring"
  uri_valid :: "hstring \<Rightarrow> hstring \<Rightarrow> bool"
  GetStringAsync :: "Uri \<Rightarrow> failure + hstring"
  JsonObject_Parse :: "hstring \<Rightarrow> failure + JsonObject"

text \<open>
  The services of the C++ library and of the Windows Runtime that the source calls and
  does not define: the iteration order of the multimap; the percent-encoding that
  \<^verbatim>\<open>HttpFormUrlEncodedContent\<close> applies to one name or value; whether the \<^verbatim>\<open>Uri\<close>
  constructor accepts a base and a relative reference (it throws otherwise); the answer
  to an HTTP GET (the mock server's body, or the exception of a failed request); and the
  JSON parser.
\<close>

fun keys_adjacent :: "('k \<times> 'v) list \<Rightarrow> bool" where
  "keys_adjacent [] = True"
| "keys_adjacent (p # ps) =
     (fst p \<notin> set (map fst (dropWhile (\<lambda>q. fst q = fst p) ps)) \<and> keys_adjacent ps)"

definition possible_iteration :: "UrlParams \<Rightarrow> (hstring \<times> hstring) list \<Rightarrow> bool" where
  "possible_iteration inserted visited = (mset visited = mset inserted \<and> keys_adjacent visited)"

definition conforming_multimap :: "platform \<Rightarrow> bool" where
  "conforming_multimap P = (\<forall>ps. possible_iteration ps (iteration_order P ps))"

fun join_pairs :: "hstring list \<Rightarrow> hstring" where
  "join_pairs [] = []"
| "join_pairs [p] = p"
| "join_pairs (p # q # ps) = p @ ''&'' @ join_pairs (q # ps)"

definition encode_pair :: "platform \<Rightarrow> hstring \<times> hstring \<Rightarrow> hstring" where
  "encode_pair P kv = url_encode P (fst kv) @ ''='' @ url_encode P (snd kv)"

text \<open>\<^verbatim>\<open>HttpFormUrlEncodedContent{{params.begin(), params.end()}}\<close> read back with
  \<^verbatim>\<open>ReadAsStringAsync\<close>: the pairs in the container's iteration order, each as
  \<^verbatim>\<open>name=value\<close>, joined with \<^verbatim>\<open>&\<close>.\<close>

definition HttpFormUrlEncodedContent :: "platform \<Rightarrow> UrlParams \<Rightarrow> hstring" where
  "HttpFormUrlEncodedContent P params = join_pairs (map (encode_pair P) (iteration_order P params))"

definition Uri_ctor :: "platform \<Rightarrow> hstring \<Rightarrow> hstring \<Rightarrow> failure + Uri" where
  "Uri_ctor P base relative =
     (if uri_valid P base relative then Inr (Uri base relative)
      else Inl (HResultError ''invalid URI''))"

record statics =
  endpoint :: "hstring option"
  requests :: "Uri list"

text \<open>
  \<open>endpoint\<close> is the function-local \<^verbatim>\<open>static winrt::hstring endpoint\<close> of \<^verbatim>\<open>buildUri\<close>
  (\<open>None\<close> until its initialiser has run); \<open>requests\<close> lists the GET requests issued
  through the static \<^verbatim>\<open>httpClient\<close> of \<^verbatim>\<open>call\<close>, oldest first.
\<close>

definition initial_statics :: statics where
  "initial_statics = \<lparr>endpoint = None, requests = []\<rparr>"

definition endpoint_static :: "environment \<Rightarrow> statics \<Rightarrow> failure + hstring" where
  "endpoint_static env st =
     (case endpoint st of
        Some e \<Rightarrow> Inr e
      | None \<Rightarrow> bind_result (readStoreMockEndpoint env) (\<lambda>e. Inr (''http://'' @ e)))"

definition buildUri ::
  "platform \<Rightarrow> environment \<Rightarrow> statics \<Rightarrow> hstring \<Rightarrow> UrlParams \<Rightarrow> (failure + Uri) \<times> statics" where
  "buildUri P env st relativePath params =
     (case endpoint_static env st of
        Inl f \<Rightarrow> (Inl f, st)
      | Inr e \<Rightarrow>
          let st' = st\<lparr>endpoint := Some e\<rparr> in
          if params \<noteq> [] then
            let rawParams = HttpFormUrlEncodedContent P params in
            (Uri_ctor P e (relativePath @ ''?'' @ rawParams), st')
          else (Uri_ctor P e relativePath, st'))"

definition call ::
  "platform \<Rightarrow> environment \<Rightarrow> statics \<Rightarrow> hstring \<Rightarrow> UrlParams \<Rightarrow> (failure + JsonObject) \<times> statics" where
  "call P env st relativePath params =
     (case buildUri P env st relativePath params of
        (Inl f, st1) \<Rightarrow> (Inl f, st1)
      | (Inr uri, st1) \<Rightarrow>
          let st2 = st1\<lparr>requests := requests st1 @ [uri]\<rparr> in
          (bind_result (GetStringAsync P uri) (JsonObject_Parse P), st2))"

section \<open>Parsing the expiration date\<close>

text \<open>
  \<^verbatim>\<open>ss >> std::chrono::parse(fmt, tp)\<close> for a \<^verbatim>\<open>system_clock::time_point\<close>, after the
  rules of the C++ standard (section time.parse) for the conversions that the format of
  \<^verbatim>\<open>fromJson\<close> uses: \<^verbatim>\<open>%F\<close> stands for \<^verbatim>\<open>%Y-%m-%d\<close> and \<^verbatim>\<open>%T\<close> for \<^verbatim>\<open>%H:%M:%S\<close>; a
  numeric conversion reads at least one and at most its width of decimal digits (4 for
  the year, 2 otherwise); the seconds of a clock finer than a second may carry a decimal
  fraction; any other character of the format has to be the next character of the
  input; a field that is read twice has to be read with the same value; when anything
  fails the stream's failbit is set and the time point is left as it was. The source is
  compiled by MSVC only, whose system clock counts ticks of 100 nanoseconds since
  1970-01-01T00:00:00 UTC.
\<close>

type_synonym time_point = int

definition ticks_per_second :: int where
  "ticks_per_second = 10000000"

definition is_digit :: "char \<Rightarrow> bool" where
  "is_digit c = (c \<in> set ''0123456789'')"

definition digit_value :: "char \<Rightarrow> int" where
  "digit_value c = int (of_char c) - 48"

definition digits_value :: "string \<Rightarrow> int" where
  "digits_value ds = foldl (\<lambda>a c. 10 * a + digit_value c) 0 ds"

fun read_digits :: "nat \<Rightarrow> string \<Rightarrow> string \<times> string" where
  "read_digits 0 s = ([], s)"
| "read_digits (Suc n) [] = ([], [])"
| "read_digits (Suc n) (c # cs) =
     (if is_digit c then (case read_digits n cs of (ds, r) \<Rightarrow> (c # ds, r)) else ([], c # cs))"

definition get_int :: "nat \<Rightarrow> string \<Rightarrow> (int \<times> string) option" where
  "get_int width s =
     (case read_digits width s of
        ([], r) \<Rightarrow> None
      | (d # ds, r) \<Rightarrow> Some (digits_value (d # ds), r))"

definition get_seconds :: "string \<Rightarrow> (int \<times> string) option" where
  "get_seconds s =
     (case get_int 2 s of
        None \<Rightarrow> None
      | Some (n, r) \<Rightarrow>
          (case r of
             [] \<Rightarrow> Some (n * ticks_per_second, [])
           | c # r' \<Rightarrow>
               if c = CHR ''.'' then
                 (case read_digits 7 r' of
                    (ds, r'') \<Rightarrow>
                      Some (n * ticks_per_second + digits_value ds * 10 ^ (7 - length ds), r''))
               else Some (n * ticks_per_second, r)))"

record time_fields =
  tf_year :: "int option"
  tf_month :: "int option"
  tf_day :: "int option"
  tf_hour :: "int option"
  tf_minute :: "int option"
  tf_second :: "int option"

text \<open>\<open>tf_second\<close> holds the seconds with their fraction, in ticks.\<close>

definition no_fields :: time_fields where
  "no_fields = \<lparr>tf_year = None, tf_month = None, tf_day = None, tf_hour = None,
     tf_minute = None, tf_second = None\<rparr>"

definition store_field ::
  "(time_fields \<Rightarrow> int option) \<Rightarrow> ((int option \<Rightarrow> int option) \<Rightarrow> time_fields \<Rightarrow> time_fields) \<Rightarrow>
   time_fields \<Rightarrow> (int \<times> string) option \<Rightarrow> (time_fields \<times> string) option" where
  "store_field get upd f r =
     (case r of
        None \<Rightarrow> None
      | Some (n, rest) \<Rightarrow>
          if get f = None \<or> get f = Some n then Some (upd (\<lambda>_. Some n) f, rest) else None)"

definition parse_field :: "char \<Rightarrow> time_fields \<Rightarrow> string \<Rightarrow> (time_fields \<times> string) option" where
  "parse_field c f s =
     (if c = CHR ''Y'' then store_field tf_year tf_year_update f (get_int 4 s)
      else if c = CHR ''m'' then store_field tf_month tf_month_update f (get_int 2 s)
      else if c = CHR ''d'' then store_field tf_day tf_day_update f (get_int 2 s)
      else if c = CHR ''H'' then store_field tf_hour tf_hour_update f (get_int 2 s)
      else if c = CHR ''M'' then store_field tf_minute tf_minute_update f (get_int 2 s)
      else if c = CHR ''S'' then store_field tf_second tf_second_update f (get_seconds s)
      else None)"

datatype format_item = Ordinary char | Conversion char

fun format_items :: "string \<Rightarrow> format_item list" where
  "format_items [] = []"
| "format_items [c] = [Ordinary c]"
| "format_items (c # d # cs) =
     (if c = CHR ''%'' then
        (if d = CHR ''F'' then
           [Conversion CHR ''Y'', Ordinary CHR ''-'', Conversion CHR ''m'', Ordinary CHR ''-'',
            Conversion CHR ''d'']
         else if d = CHR ''T'' then
           [Conversion CHR ''H'', Ordinary CHR '':'', Conversion CHR ''M'', Ordinary CHR '':'',
            Conversion CHR ''S'']
         else [Conversion d]) @ format_items cs
      else Ordinary c # format_items (d # cs))"

fun run_format :: "format_item list \<Rightarrow> time_fields \<Rightarrow> string \<Rightarrow> time_fields option" where
  "run_format [] f s = Some f"
| "run_format (Ordinary c # items) f [] = None"
| "run_format (Ordinary c # items) f (x # s) = (if x = c then run_format items f s else None)"
| "run_format (Conversion c # items) f s =
     (case parse_field c f s of
        None \<Rightarrow> None
      | Some (f', s') \<Rightarrow> run_format items f' s')"

definition is_leap :: "int \<Rightarrow> bool" where
  "is_leap y = (y mod 4 = 0 \<and> (y mod 100 \<noteq> 0 \<or> y mod 400 = 0))"

definition last_day_of_month :: "int \<Rightarrow> int \<Rightarrow> int" where
  "last_day_of_month y m =
     (if m = 2 then (if is_leap y then 29 else 28)
      else if m = 4 \<or> m = 6 \<or> m = 9 \<or> m = 11 then 30
      else 31)"

text \<open>The days from 1970-01-01 to a date of the proleptic Gregorian calendar
  (\<^verbatim>\<open>sys_days{year/month/day}\<close>).\<close>

definition days_from_civil :: "int \<Rightarrow> int \<Rightarrow> int \<Rightarrow> int" where
  "days_from_civil y m d =
     (let y' = (if m \<le> 2 then y - 1 else y);
          era = y' div 400;
          yoe = y' - era * 400;
          doy = (153 * (if m > 2 then m - 3 else m + 9) + 2) div 5 + d - 1;
          doe = yoe * 365 + yoe div 4 - yoe div 100 + doy
      in era * 146097 + doe - 719468)"

definition make_time_point :: "time_fields \<Rightarrow> time_point option" where
  "make_time_point f =
     (case (tf_year f, tf_month f, tf_day f, tf_hour f, tf_minute f, tf_second f) of
        (Some y, Some m, Some d, Some h, Some mi, Some t) \<Rightarrow>
          if 1 \<le> m \<and> m \<le> 12 \<and> 1 \<le> d \<and> d \<le> last_day_of_month y m \<and>
             h < 24 \<and> mi < 60 \<and> t < 60 * ticks_per_second
          then Some (days_from_civil y m d * (86400 * ticks_per_second)
                     + (h * 3600 + mi * 60) * ticks_per_second + t)
          else None
      | _ \<Rightarrow> None)"

definition chrono_parse :: "string \<Rightarrow> string \<Rightarrow> time_point option" where
  "chrono_parse fmt s =
     (case run_format (format_items fmt) no_fields s of
        None \<Rightarrow> None
      | Some f \<Rightarrow> make_time_point f)"

text \<open>\<^verbatim>\<open>ss >> std::chrono::parse(fmt, tp)\<close>: the new value of \<^verbatim>\<open>tp\<close>.\<close>

definition extract_time :: "string \<Rightarrow> string \<Rightarrow> time_point \<Rightarrow> time_point" where
  "extract_time fmt s tp = (case chrono_parse fmt s of None \<Rightarrow> tp | Some t \<Rightarrow> t)"

section \<open>Decoding a product\<close>

text \<open>
  Modelled from the spec: the struct \<^verbatim>\<open>WinMockContext::Product\<close> is declared in
  \<^verbatim>\<open>WinMockContext.hpp\<close>, which is not among the sources. Its six members are those of
  the spec's data model (id, title, description, kind, expiration, inUserCollection), in
  the order of the initialiser list of \<^verbatim>\<open>fromJson\<close>.
\<close>

record Product =
  storeID :: string
  title :: string
  description :: string
  productKind :: string
  expiration :: time_point
  inUserCollection :: bool

definition epoch :: time_point where
  "epoch = 0"

definition fromJson :: "JsonObject \<Rightarrow> failure + Product" where
  "fromJson obj =
     bind_result (GetNamedString obj ''ExpirationDate'') (\<lambda>date.
       let tp = extract_time ''%FT%T%Tz'' date epoch in
       bind_result (GetNamedString obj ''StoreID'') (\<lambda>i.
       bind_result (GetNamedString obj ''Title'') (\<lambda>t.
       bind_result (GetNamedString obj ''Description'') (\<lambda>d.
       bind_result (GetNamedString obj ''ProductKind'') (\<lambda>k.
       bind_result (GetNamedBoolean obj ''IsInUserCollection'') (\<lambda>c.
         Inr \<lparr>storeID = i, title = t, description = d, productKind = k,
              expiration = tp, inUserCollection = c\<rparr>))))))"

section \<open>The operations of the mock context\<close>

text \<open>
  Modelled from the spec: \<^verbatim>\<open>to_hstrings\<close> is defined in \<^verbatim>\<open>WinRTHelpers.hpp\<close>, which is
  not among the sources. After the spec the parameter set gets one entry per element, in
  order, so it converts every element and keeps their order.
\<close>

definition to_hstrings :: "string list \<Rightarrow> hstring list" where
  "to_hstrings input = map (\<lambda>s. s) input"

definition GetProducts_parameters :: "string list \<Rightarrow> string list \<Rightarrow> UrlParams" where
  "GetProducts_parameters kinds ids =
     (let hKinds = to_hstrings kinds;
          hIds = to_hstrings ids;
          parameters = [];
          parameters = foldl insert_pair parameters (map (\<lambda>k. (''kinds'', k)) hKinds);
          parameters = foldl insert_pair parameters (map (\<lambda>i. (''ids'', i)) hIds)
      in parameters)"

fun decode_products :: "IJsonValue list \<Rightarrow> Product list \<Rightarrow> failure + Product list" where
  "decode_products [] result = Inr result"
| "decode_products (product # products) result =
     bind_result (GetObject product) (\<lambda>p.
       bind_result (fromJson p) (\<lambda>x. decode_products products (result @ [x])))"

definition GetProducts ::
  "platform \<Rightarrow> environment \<Rightarrow> statics \<Rightarrow> string list \<Rightarrow> string list \<Rightarrow>
   (failure + Product list) \<times> statics" where
  "GetProducts P env st kinds ids =
     (if kinds = [] then (Inl (AssertionFailed ''kinds vector cannot be empty''), st)
      else if ids = [] then (Inl (AssertionFailed ''ids vector cannot be empty''), st)
      else
        (case call P env st ''/products'' (GetProducts_parameters kinds ids) of
           (Inl f, st') \<Rightarrow> (Inl f, st')
         | (Inr productsJson, st') \<Rightarrow>
             (bind_result (GetNamedArray productsJson ''products'') (\<lambda>products.
                decode_products products []), st')))"

fun collect_strings :: "IJsonValue list \<Rightarrow> string list \<Rightarrow> failure + string list" where
  "collect_strings [] result = Inr result"
| "collect_strings (user # users) result =
     bind_result (GetString user) (\<lambda>s. collect_strings users (result @ [s]))"

definition AllLocallyAuthenticatedUserHashes ::
  "platform \<Rightarrow> environment \<Rightarrow> statics \<Rightarrow> (failure + string list) \<times> statics" where
  "AllLocallyAuthenticatedUserHashes P env st =
     (case call P env st ''/allauthenticatedusers'' [] of
        (Inl f, st') \<Rightarrow> (Inl f, st')
      | (Inr usersList, st') \<Rightarrow>
          (bind_result (GetNamedArray usersList ''users'') (\<lambda>users.
             collect_strings users []), st'))"

definition GenerateUserJwt_parameters :: "string \<Rightarrow> string \<Rightarrow> UrlParams" where
  "GenerateUserJwt_parameters token userId =
     (let parameters = insert_pair [] (''serviceticket'', token) in
      if userId \<noteq> [] then insert_pair parameters (''publisheruserid'', userId)
      else parameters)"

definition GenerateUserJwt ::
  "platform \<Rightarrow> environment \<Rightarrow> statics \<Rightarrow> string \<Rightarrow> string \<Rightarrow> (failure + string) \<times> statics" where
  "GenerateUserJwt P env st token userId =
     (if token = [] then (Inl (AssertionFailed ''Azure AD token is required''), st)
      else
        (case call P env st ''generateuserjwt'' (GenerateUserJwt_parameters token userId) of
           (Inl f, st') \<Rightarrow> (Inl f, st')
         | (Inr res, st') \<Rightarrow> (GetNamedString res ''jwt'', st')))"

section \<open>Reading a query string\<close>

text \<open>
  What a server sees of a query string: the pieces between the \<^verbatim>\<open>&\<close> separators, and of
  each piece the key before its first \<^verbatim>\<open>=\<close>. These two functions are not part of the
  source; they state what "the query string has \<open>n\<close> occurrences of a key" means.
\<close>

fun split_on :: "char \<Rightarrow> string \<Rightarrow> string list" where
  "split_on c [] = [[]]"
| "split_on c (x # xs) =
     (if x = c then [] # split_on c xs
      else (case split_on c xs of [] \<Rightarrow> [[x]] | y # ys \<Rightarrow> (x # y) # ys))"

definition query_pairs :: "string \<Rightarrow> string list" where
  "query_pairs q = split_on CHR ''&'' q"

definition query_keys :: "string \<Rightarrow> string list" where
  "query_keys q = map (takeWhile (\<lambda>c. c \<noteq> CHR ''='')) (query_pairs q)"

text \<open>
  What the theorems ask of the platform's percent-encoding: an encoded name or value
  holds neither separator, and a name or value of letters and digits only is left as
  it is.
\<close>

definition alphanumeric :: "char \<Rightarrow> bool" where
  "alphanumeric c =
     (c \<in> set ''abcdefghijklmnopqrstuvwxyzABCDEFGHIJKLMNOPQRSTUVWXYZ0123456789'')"

definition form_urlencoding :: "platform \<Rightarrow> bool" where
  "form_urlencoding P =
     (\<forall>s. CHR ''&'' \<notin> set (url_encode P s) \<and> CHR ''='' \<notin> set (url_encode P s) \<and>
          (list_all alphanumeric s \<longrightarrow> url_encode P s = s))"

section \<open>Shapes of date strings\<close>




section \<open>A platform to run the operations on\<close>

text \<open>
  One instance of the platform, for evaluating the operations on concrete inputs: a
  multimap that iterates key by key (the keys as \<open>remdups\<close> lists them, the values of a
  key in the order of their insertion), the percent-encoding of
  \<^verbatim>\<open>application/x-www-form-urlencoded\<close> (letters, digits and \<^verbatim>\<open>-_.~\<close> are kept, a space
  becomes \<^verbatim>\<open>+\<close>, any other code unit becomes \<^verbatim>\<open>%XX\<close>), a \<^verbatim>\<open>Uri\<close> constructor that accepts
  everything, and a server whose every answer parses to one given JSON object.
\<close>

definition group_by_key :: "UrlParams \<Rightarrow> (hstring \<times> hstring) list" where
  "group_by_key ps = concat (map (\<lambda>k. filter (\<lambda>p. fst p = k) ps) (remdups (map fst ps)))"

definition hex_digit :: "nat \<Rightarrow> char" where
  "hex_digit n = ''0123456789ABCDEF'' ! (n mod 16)"

definition percent_encode_unit :: "char \<Rightarrow> string" where
  "percent_encode_unit c =
     (if alphanumeric c \<or> c \<in> set ''-_.~'' then [c]
      else if c = CHR '' '' then ''+''
      else [CHR ''%'', hex_digit (of_char c div 16), hex_digit (of_char c mod 16)])"

definition percent_encode :: "hstring \<Rightarrow> hstring" where
  "percent_encode s = concat (map percent_encode_unit s)"

definition mock_platform :: "JsonObject \<Rightarrow> platform" where
  "mock_platform response =
     \<lparr>iteration_order = group_by_key,
      url_encode = percent_encode,
      uri_valid = (\<lambda>base relative. True),
      GetStringAsync = (\<lambda>uri. Inr []),
      JsonObject_Parse = (\<lambda>contents. Inr response)\<rparr>"

definition unset_environment :: environment where
  "unset_environment = \<lparr>mock_endpoint_var = None, stack_contents = []\<rparr>"

definition game_product :: "hstring \<Rightarrow> JsonObject" where
  "game_product date =
     [(''StoreID'', JsonString ''9NBLGGH4R315''),
      (''Title'', JsonString ''A game''),
      (''Description'', JsonString ''A game to play''),
      (''ProductKind'', JsonString ''game''),
      (''ExpirationDate'', JsonString date),
      (''IsInUserCollection'', JsonBoolean True)]"

definition products_response :: "JsonObject list \<Rightarrow> JsonObject" where
  "products_response ps = [(''products'', JsonArray (map JsonObject ps))]"

section \<open>Properties of the building blocks\<close>

lemma foldl_insert_pair: "foldl insert_pair acc xs = acc @ xs"
  by (induction xs arbitrary: acc) (simp_all add: insert_pair_def)

lemma GetProducts_parameters_eq:
  "GetProducts_parameters kinds ids = map (Pair ''kinds'') kinds @ map (Pair ''ids'') ids"
  by (simp add: GetProducts_parameters_def to_hstrings_def foldl_insert_pair)

lemma split_on_not_Nil: "split_on c s \<noteq> []"
  by (induction s) (auto split: list.splits)

lemma split_on_absent: "c \<notin> set a \<Longrightarrow> split_on c a = [a]"
  by (induction a) auto

lemma split_on_append: "c \<notin> set a \<Longrightarrow> split_on c (a @ c # b) = a # split_on c b"
  by (induction a) (auto split: list.splits)

lemma split_on_join_pairs:
  "xs \<noteq> [] \<Longrightarrow> \<forall>x \<in> set xs. CHR ''&'' \<notin> set x \<Longrightarrow> split_on CHR ''&'' (join_pairs xs) = xs"
proof (induction xs rule: join_pairs.induct)
  case 1
  then show ?case by simp
next
  case (2 p)
  then show ?case by (simp add: split_on_absent)
next
  case (3 p q ps)
  then have "split_on CHR ''&'' (join_pairs (q # ps)) = q # ps" by simp
  moreover have "CHR ''&'' \<notin> set p" using 3 by simp
  ultimately show ?case using split_on_append [of "CHR ''&''" p "join_pairs (q # ps)"] by simp
qed

lemma encode_pair_clean:
  "form_urlencoding P \<Longrightarrow> CHR ''&'' \<notin> set (encode_pair P kv)"
  by (simp add: form_urlencoding_def encode_pair_def)

lemma takeWhile_up_to: "c \<notin> set a \<Longrightarrow> takeWhile (\<lambda>x. x \<noteq> c) (a @ c # b) = a"
  by (induction a) auto

lemma encode_pair_key:
  "form_urlencoding P \<Longrightarrow> takeWhile (\<lambda>c. c \<noteq> CHR ''='') (encode_pair P kv) = url_encode P (fst kv)"
  by (simp add: form_urlencoding_def encode_pair_def takeWhile_up_to)

lemma query_pairs_content:
  assumes "form_urlencoding P" "iteration_order P params \<noteq> []"
  shows "query_pairs (HttpFormUrlEncodedContent P params) = map (encode_pair P) (iteration_order P params)"
  unfolding query_pairs_def HttpFormUrlEncodedContent_def
  using assms by (intro split_on_join_pairs) (auto simp: encode_pair_clean)

lemma query_keys_content:
  assumes "form_urlencoding P" "iteration_order P params \<noteq> []"
  shows "query_keys (HttpFormUrlEncodedContent P params) = map (\<lambda>kv. url_encode P (fst kv)) (iteration_order P params)"
  using assms by (simp add: query_keys_def query_pairs_content encode_pair_key)

lemma iteration_mset: "conforming_multimap P \<Longrightarrow> mset (iteration_order P params) = mset params"
  by (simp add: conforming_multimap_def possible_iteration_def)

lemma iteration_not_Nil: "conforming_multimap P \<Longrightarrow> params \<noteq> [] \<Longrightarrow> iteration_order P params \<noteq> []"
  using iteration_mset [of P params] by (metis mset_zero_iff)

lemma iteration_adjacent: "conforming_multimap P \<Longrightarrow> keys_adjacent (iteration_order P params)"
  by (simp add: conforming_multimap_def possible_iteration_def)

lemma count_list_mset_cong: "mset xs = mset ys \<Longrightarrow> count_list (map f xs) a = count_list (map f ys) a"
proof -
  assume "mset xs = mset ys"
  then have "mset (map f xs) = mset (map f ys)" by (metis mset_map)
  then have "count (mset (map f xs)) a = count (mset (map f ys)) a" by simp
  then show ?thesis by (simp only: count_mset)
qed

lemma alnum_kinds: "list_all alphanumeric ''kinds''" "list_all alphanumeric ''ids''"
  by (simp_all add: alphanumeric_def)

lemma count_list_const: "count_list (map (\<lambda>x. k) xs) a = (if a = k then length xs else 0)"
  by (induction xs) auto

lemma count_keys: 
  "count_list (map fst (map (Pair ''kinds'') kinds @ map (Pair ''ids'') ids)) ''kinds'' = length kinds"
  "count_list (map fst (map (Pair ''kinds'') kinds @ map (Pair ''ids'') ids)) ''ids'' = length ids"
  by (simp_all add: count_list_append comp_def count_list_const)

lemma query_keys_GetProducts:
  assumes "conforming_multimap P" "form_urlencoding P" "kinds \<noteq> []"
  shows "query_keys (HttpFormUrlEncodedContent P (GetProducts_parameters kinds ids)) =
         map fst (iteration_order P (GetProducts_parameters kinds ids))"
proof -
  let ?ps = "GetProducts_parameters kinds ids"
  let ?it = "iteration_order P ?ps"
  have ne: "?it \<noteq> []"
    using assms by (intro iteration_not_Nil) (simp_all add: GetProducts_parameters_eq)
  have "set ?it = set ?ps"
    using iteration_mset [OF assms(1), of ?ps] by (metis set_mset_mset)
  then have keys: "\<forall>kv \<in> set ?it. fst kv = ''kinds'' \<or> fst kv = ''ids''"
    by (auto simp: GetProducts_parameters_eq)
  have enc: "url_encode P ''kinds'' = ''kinds''" "url_encode P ''ids'' = ''ids''"
    using assms(2) alnum_kinds by (simp_all add: form_urlencoding_def)
  have "map (\<lambda>kv. url_encode P (fst kv)) ?it = map fst ?it"
    using keys enc by (intro map_cong) auto
  then show ?thesis using query_keys_content [OF assms(2) ne] by simp
qed

lemma GetProducts_requests:
  assumes "kinds \<noteq> []" "ids \<noteq> []" "endpoint_static env st = Inr e"
    and "uri_valid P e (''/products?'' @ HttpFormUrlEncodedContent P (GetProducts_parameters kinds ids))"
  shows "requests (snd (GetProducts P env st kinds ids)) =
         requests st @ [Uri e (''/products?'' @ HttpFormUrlEncodedContent P (GetProducts_parameters kinds ids))]"
proof -
  have "GetProducts_parameters kinds ids \<noteq> []"
    using assms(1) by (simp add: GetProducts_parameters_eq)
  then show ?thesis
    using assms
    by (simp add: GetProducts_def call_def buildUri_def Uri_ctor_def Let_def split: sum.splits prod.splits)
qed

lemma mset_grouped:
  "distinct ks \<Longrightarrow>
   mset (concat (map (\<lambda>k. filter (\<lambda>p. fst p = k) ps) ks)) = filter_mset (\<lambda>p. fst p \<in> set ks) (mset ps)"
proof (induction ks)
  case Nil
  then show ?case by simp
next
  case (Cons k ks)
  then have "k \<notin> set ks" by simp
  then have "filter_mset (\<lambda>p. fst p = k) (mset ps) + filter_mset (\<lambda>p. fst p \<in> set ks) (mset ps) =
        filter_mset (\<lambda>p. fst p \<in> set (k # ks)) (mset ps)"
    by (intro multiset_eqI) auto
  with Cons show ?case by simp
qed

lemma mset_group_by_key: "mset (group_by_key ps) = mset ps"
proof -
  have "filter_mset (\<lambda>p. fst p \<in> set (remdups (map fst ps))) (mset ps) = mset ps"
    by (intro multiset_eqI) auto
  then show ?thesis by (simp add: group_by_key_def mset_grouped)
qed

lemma keys_adjacent_block:
  "\<forall>p \<in> set a. fst p = k \<Longrightarrow> k \<notin> fst ` set b \<Longrightarrow> keys_adjacent b \<Longrightarrow> keys_adjacent (a @ b)"
proof (induction a)
  case Nil
  then show ?case by simp
next
  case (Cons p a)
  then have "dropWhile (\<lambda>q. fst q = fst p) (a @ b) = dropWhile (\<lambda>q. fst q = fst p) b"
    by (intro dropWhile_append2) auto
  moreover have "fst p \<notin> fst ` set (dropWhile (\<lambda>q. fst q = fst p) b)"
    using Cons.prems by (auto dest: set_dropWhileD)
  ultimately show ?case using Cons by simp
qed

lemma keys_adjacent_grouped:
  "distinct ks \<Longrightarrow> keys_adjacent (concat (map (\<lambda>k. filter (\<lambda>p. fst p = k) ps) ks))"
proof (induction ks)
  case Nil
  then show ?case by simp
next
  case (Cons k ks)
  have "k \<notin> fst ` set (concat (map (\<lambda>k. filter (\<lambda>p. fst p = k) ps) ks))"
    using Cons.prems by auto
  moreover have "keys_adjacent (concat (map (\<lambda>k. filter (\<lambda>p. fst p = k) ps) ks))"
    using Cons by simp
  moreover have "\<forall>p \<in> set (filter (\<lambda>p. fst p = k) ps). fst p = k" by simp
  ultimately have "keys_adjacent (filter (\<lambda>p. fst p = k) ps @
      concat (map (\<lambda>k. filter (\<lambda>p. fst p = k) ps) ks))"
    by (intro keys_adjacent_block [where k = k])
  then show ?case by simp
qed

lemma conforming_mock_platform: "conforming_multimap (mock_platform response)"
  by (simp add: conforming_multimap_def possible_iteration_def mock_platform_def
      mset_group_by_key) (simp add: group_by_key_def keys_adjacent_grouped)

lemma hex_digit_in: "hex_digit n \<in> set ''0123456789ABCDEF''"
  unfolding hex_digit_def by (rule nth_mem) simp

lemma hex_digit_not_separator:
  "hex_digit n \<noteq> CHR ''&''" "hex_digit n \<noteq> CHR ''=''"
  "CHR ''&'' \<noteq> hex_digit n" "CHR ''='' \<noteq> hex_digit n"
  using hex_digit_in [of n] by auto

lemma unreserved_not_separator:
  "alphanumeric c \<or> c \<in> set ''-_.~'' \<Longrightarrow> c \<noteq> CHR ''&'' \<and> c \<noteq> CHR ''=''"
  by (auto simp: alphanumeric_def)

lemma percent_encode_unit_clean:
  "CHR ''&'' \<notin> set (percent_encode_unit c) \<and> CHR ''='' \<notin> set (percent_encode_unit c)"
proof (cases "alphanumeric c \<or> c \<in> set ''-_.~''")
  case True
  then have "percent_encode_unit c = [c]" by (simp only: percent_encode_unit_def if_True)
  with unreserved_not_separator [OF True] show ?thesis by auto
next
  case False
  then have "percent_encode_unit c =
      (if c = CHR '' '' then ''+''
       else [CHR ''%'', hex_digit (of_char c div 16), hex_digit (of_char c mod 16)])"
    by (simp only: percent_encode_unit_def if_False)
  then show ?thesis by (simp add: hex_digit_not_separator)
qed

lemma percent_encode_clean:
  "CHR ''&'' \<notin> set (percent_encode s)" "CHR ''='' \<notin> set (percent_encode s)"
  using percent_encode_unit_clean by (simp_all add: percent_encode_def)

lemma percent_encode_alphanumeric: "list_all alphanumeric s \<Longrightarrow> percent_encode s = s"
  by (induction s) (simp_all add: percent_encode_def percent_encode_unit_def)

lemma form_urlencoding_mock_platform: "form_urlencoding (mock_platform response)"
  by (simp add: form_urlencoding_def mock_platform_def percent_encode_clean
      percent_encode_alphanumeric)

lemma hstring_of_array_terminated:
  "NUL \<notin> set v \<Longrightarrow> hstring_of_array (v @ NUL # rest) = Inr v"
  by (simp add: hstring_of_array_def takeWhile_up_to)

lemma readStoreMockEndpoint_unset:
  "mock_endpoint_var env = None \<Longrightarrow> readStoreMockEndpoint env = Inr ''127.0.0.1:9''"
  by (simp add: readStoreMockEndpoint_def GetEnvironmentVariableW_def)

lemma readStoreMockEndpoint_empty:
  "mock_endpoint_var env = Some [] \<Longrightarrow> readStoreMockEndpoint env = Inr ''127.0.0.1:9''"
  by (simp add: readStoreMockEndpoint_def GetEnvironmentVariableW_def endpointSize_def)

lemma readStoreMockEndpoint_fits:
  "mock_endpoint_var env = Some v \<Longrightarrow> v \<noteq> [] \<Longrightarrow> length v < endpointSize \<Longrightarrow> NUL \<notin> set v \<Longrightarrow>
   readStoreMockEndpoint env = Inr v"
  by (simp add: readStoreMockEndpoint_def GetEnvironmentVariableW_def hstring_of_array_terminated)

lemma endpoint_static_cached: "endpoint st = Some e \<Longrightarrow> endpoint_static env st = Inr e"
  by (simp add: endpoint_static_def)

lemma endpoint_static_first:
  "endpoint st = None \<Longrightarrow> readStoreMockEndpoint env = Inr v \<Longrightarrow>
   endpoint_static env st = Inr (''http://'' @ v)"
  by (simp add: endpoint_static_def bind_result_def)

lemma buildUri_endpoint:
  "endpoint_static env st = Inr e \<Longrightarrow> endpoint (snd (buildUri P env st path params)) = Some e"
  by (simp add: buildUri_def Let_def)

lemma buildUri_no_params:
  "endpoint_static env st = Inr e \<Longrightarrow>
   buildUri P env st path [] = (Uri_ctor P e path, st\<lparr>endpoint := Some e\<rparr>)"
  by (simp add: buildUri_def Let_def)

lemma buildUri_params:
  "endpoint_static env st = Inr e \<Longrightarrow> params \<noteq> [] \<Longrightarrow>
   buildUri P env st path params =
     (Uri_ctor P e (path @ ''?'' @ HttpFormUrlEncodedContent P params), st\<lparr>endpoint := Some e\<rparr>)"
  by (simp add: buildUri_def Let_def)

lemma call_endpoint:
  "endpoint_static env st = Inr e \<Longrightarrow> endpoint (snd (call P env st path params)) = Some e"
  by (simp add: call_def buildUri_def Let_def split: sum.splits prod.splits)

lemma decode_products_fails:
  "JsonObject obj \<in> set products \<Longrightarrow> fromJson obj = Inl f \<Longrightarrow> \<exists>g. decode_products products acc = Inl g"
proof (induction products arbitrary: acc)
  case Nil
  then show ?case by simp
next
  case (Cons p ps)
  show ?case
  proof (cases "p = JsonObject obj")
    case True
    with Cons.prems show ?thesis by (simp add: GetObject_def bind_result_def)
  next
    case False
    with Cons.prems have "JsonObject obj \<in> set ps" by simp
    then have ih: "\<exists>g. decode_products ps acc' = Inl g" for acc'
      using Cons.IH Cons.prems(2) by blast
    show ?thesis
    proof (cases "bind_result (GetObject p) fromJson")
      case (Inl e)
      then show ?thesis by (auto simp: bind_result_def split: sum.splits)
    next
      case (Inr x)
      with ih [of "acc @ [x]"] show ?thesis by (auto simp: bind_result_def split: sum.splits)
    qed
  qed
qed

lemma chrono_parse_doubled_time:
  "chrono_parse ''%FT%T%Tz'' ''2025-01-01T00:00:0000:00:00z'' = Some 17356896000000000"
  by code_simp










lemma buildUri_query_pairs:
  assumes "params \<noteq> []" and "conforming_multimap P" and "form_urlencoding P"
    and "endpoint_static env st = Inr e"
  shows "fst (buildUri P env st path params) =
           Uri_ctor P e (path @ ''?'' @ HttpFormUrlEncodedContent P params) \<and>
         (\<exists>visited. mset visited = mset params \<and> keys_adjacent visited \<and>
            HttpFormUrlEncodedContent P params = join_pairs (map (encode_pair P) visited) \<and>
            query_pairs (HttpFormUrlEncodedContent P params) = map (encode_pair P) visited)"
proof -
  let ?it = "iteration_order P params"
  have "?it \<noteq> []" using assms(1,2) by (simp add: iteration_not_Nil)
  then have "query_pairs (HttpFormUrlEncodedContent P params) = map (encode_pair P) ?it"
    using assms(3) by (simp add: query_pairs_content)
  moreover have "mset ?it = mset params" using assms(2) by (rule iteration_mset)
  moreover have "keys_adjacent ?it" using assms(2) by (rule iteration_adjacent)
  moreover have "HttpFormUrlEncodedContent P params = join_pairs (map (encode_pair P) ?it)"
    by (simp add: HttpFormUrlEncodedContent_def)
  moreover have "fst (buildUri P env st path params) =
           Uri_ctor P e (path @ ''?'' @ HttpFormUrlEncodedContent P params)"
    using assms(1,4) by (simp add: buildUri_params)
  ultimately show ?thesis by blast
qed

section \<open>The claims\<close>

text \<open>
  Claim C1. \<^verbatim>\<open>GetProducts\<close> with kinds \<^verbatim>\<open>["game"]\<close> and ids \<^verbatim>\<open>["9NBLGGH4R315"]\<close>, answered
  with one product whose \<^verbatim>\<open>ExpirationDate\<close> is \<^verbatim>\<open>2025-01-01T00:00:00Z\<close>, should return one
  product that expires at that instant (1735689600 seconds, that is 17356896000000000
  ticks, after the epoch). The code returns one product that expires at the epoch: the
  format \<^verbatim>\<open>%FT%T%Tz\<close> of \<^verbatim>\<open>fromJson\<close> asks for a second time of day and a lower-case
  \<^verbatim>\<open>z\<close> after the first time of day, so the second \<^verbatim>\<open>%T\<close> fails on the \<^verbatim>\<open>Z\<close> of the
  input. The same parser with the format \<^verbatim>\<open>%FT%TZ\<close> yields the instant.
\<close>

theorem GetProducts_well_formed_date_is_epoch:
  "chrono_parse ''%FT%T%Tz'' ''2025-01-01T00:00:00Z'' = None \<and>
   chrono_parse ''%FT%TZ'' ''2025-01-01T00:00:00Z'' = Some 17356896000000000 \<and>
   fromJson (game_product ''2025-01-01T00:00:00Z'') =
     Inr \<lparr>storeID = ''9NBLGGH4R315'', title = ''A game'', description = ''A game to play'',
          productKind = ''game'', expiration = 0, inUserCollection = True\<rparr> \<and>
   fst (GetProducts (mock_platform (products_response [game_product ''2025-01-01T00:00:00Z'']))
          unset_environment initial_statics [''game''] [''9NBLGGH4R315'']) =
     Inr [\<lparr>storeID = ''9NBLGGH4R315'', title = ''A game'', description = ''A game to play'',
           productKind = ''game'', expiration = 0, inUserCollection = True\<rparr>]"
  by code_simp

text \<open>
  Claim C2, as stated: every malformed or oversized value of the variable resolves to
  the default endpoint. It fails: the value \<^verbatim>\<open>not a host\<close> fits the array and is taken as
  it is.
\<close>

theorem endpoint_malformed_value_counterexample:
  "endpoint_static \<lparr>mock_endpoint_var = Some ''not a host'', stack_contents = []\<rparr> initial_statics
     = Inr ''http://not a host'' \<and>
   endpoint_static \<lparr>mock_endpoint_var = Some ''not a host'', stack_contents = []\<rparr> initial_statics
     \<noteq> Inr ''http://127.0.0.1:9''"
  by code_simp

text \<open>
  Claim C2, amended: resolution falls back to \<^verbatim>\<open>127.0.0.1:9\<close> (with \<^verbatim>\<open>http://\<close> prepended)
  when the variable is unset or empty, which is when \<^verbatim>\<open>GetEnvironmentVariableW\<close> returns
  0; every other value that fits the array of 20 units, well-formed or not, is returned
  as it is, and resolution does not fail on it.
\<close>

theorem readStoreMockEndpoint_fallback:
  "(mock_endpoint_var env = None \<or> mock_endpoint_var env = Some [] \<longrightarrow>
      readStoreMockEndpoint env = Inr ''127.0.0.1:9'' \<and>
      (endpoint st = None \<longrightarrow> endpoint_static env st = Inr ''http://127.0.0.1:9'')) \<and>
   (mock_endpoint_var env = Some v \<and> v \<noteq> [] \<and> length v < 20 \<and> NUL \<notin> set v \<longrightarrow>
      readStoreMockEndpoint env = Inr v)"
proof (intro conjI impI)
  assume a: "mock_endpoint_var env = None \<or> mock_endpoint_var env = Some []"
  then show r: "readStoreMockEndpoint env = Inr ''127.0.0.1:9''"
    using readStoreMockEndpoint_unset readStoreMockEndpoint_empty by blast
  assume "endpoint st = None"
  with r show "endpoint_static env st = Inr ''http://127.0.0.1:9''"
    using endpoint_static_first by fastforce
next
  assume "mock_endpoint_var env = Some v \<and> v \<noteq> [] \<and> length v < 20 \<and> NUL \<notin> set v"
  then show "readStoreMockEndpoint env = Inr v"
    by (intro readStoreMockEndpoint_fits) (simp_all add: endpointSize_def)
qed

theorem readStoreMockEndpoint_fallback_witness:
  "readStoreMockEndpoint \<lparr>mock_endpoint_var = Some [], stack_contents = ''junk''\<rparr> = Inr ''127.0.0.1:9'' \<and>
   endpoint_static \<lparr>mock_endpoint_var = Some [], stack_contents = ''junk''\<rparr> initial_statics =
     Inr ''http://127.0.0.1:9'' \<and>
   readStoreMockEndpoint \<lparr>mock_endpoint_var = Some ''::'', stack_contents = ''junk''\<rparr> = Inr ''::''"
proof -
  have n: "NUL \<notin> set ''::''" by (simp add: NUL_def)
  show ?thesis
    using n
      readStoreMockEndpoint_fallback [of "\<lparr>mock_endpoint_var = Some [], stack_contents = ''junk''\<rparr>"
        initial_statics "[]"]
      readStoreMockEndpoint_fallback [of "\<lparr>mock_endpoint_var = Some ''::'', stack_contents = ''junk''\<rparr>"
        initial_statics "''::''"]
    by (simp add: initial_statics_def)
qed

text \<open>
  Claim C4. With the variable unset the endpoint resolves to \<^verbatim>\<open>http://127.0.0.1:9\<close>, with
  the value \<^verbatim>\<open>203.0.113.5:8080\<close> to \<^verbatim>\<open>http://203.0.113.5:8080\<close>; once \<^verbatim>\<open>buildUri\<close> (or
  \<^verbatim>\<open>call\<close>) has run, every later resolution yields the value of the first one, whatever
  the environment has become, and \<^verbatim>\<open>buildUri\<close> builds its \<^verbatim>\<open>Uri\<close> on it.
\<close>

theorem endpoint_resolved_once:
  "(endpoint st = None \<and> mock_endpoint_var env = None \<longrightarrow>
      endpoint_static env st = Inr ''http://127.0.0.1:9'') \<and>
   (endpoint st = None \<and> mock_endpoint_var env = Some ''203.0.113.5:8080'' \<longrightarrow>
      endpoint_static env st = Inr ''http://203.0.113.5:8080'') \<and>
   (endpoint_static env st = Inr e \<longrightarrow>
      endpoint_static env' (snd (buildUri P env st path params)) = Inr e \<and>
      endpoint_static env' (snd (call P env st path params)) = Inr e \<and>
      fst (buildUri P env' (snd (buildUri P env st path params)) path' []) = Uri_ctor P e path')"
proof (intro conjI impI)
  assume "endpoint st = None \<and> mock_endpoint_var env = None"
  then show "endpoint_static env st = Inr ''http://127.0.0.1:9''"
    using endpoint_static_first [OF _ readStoreMockEndpoint_unset] by fastforce
next
  assume a: "endpoint st = None \<and> mock_endpoint_var env = Some ''203.0.113.5:8080''"
  have "NUL \<notin> set ''203.0.113.5:8080''" by (simp add: NUL_def)
  with a have "readStoreMockEndpoint env = Inr ''203.0.113.5:8080''"
    by (intro readStoreMockEndpoint_fits) (simp_all add: endpointSize_def)
  with a show "endpoint_static env st = Inr ''http://203.0.113.5:8080''"
    using endpoint_static_first by fastforce
next
  assume "endpoint_static env st = Inr e"
  then show "endpoint_static env' (snd (buildUri P env st path params)) = Inr e"
    by (simp add: buildUri_endpoint endpoint_static_cached)
next
  assume "endpoint_static env st = Inr e"
  then show "endpoint_static env' (snd (call P env st path params)) = Inr e"
    by (simp add: call_endpoint endpoint_static_cached)
next
  assume "endpoint_static env st = Inr e"
  then have "endpoint_static env' (snd (buildUri P env st path params)) = Inr e"
    by (simp add: buildUri_endpoint endpoint_static_cached)
  then show "fst (buildUri P env' (snd (buildUri P env st path params)) path' []) = Uri_ctor P e path'"
    by (simp add: buildUri_no_params)
qed

theorem endpoint_resolved_once_witness:
  "endpoint_static unset_environment initial_statics = Inr ''http://127.0.0.1:9'' \<and>
   endpoint_static (unset_environment\<lparr>mock_endpoint_var := Some ''203.0.113.5:8080''\<rparr>)
     (snd (buildUri (mock_platform []) unset_environment initial_statics ''/products'' [])) =
     Inr ''http://127.0.0.1:9'' \<and>
   endpoint_static (unset_environment\<lparr>mock_endpoint_var := Some ''203.0.113.5:8080''\<rparr>)
     initial_statics = Inr ''http://203.0.113.5:8080'' \<and>
   endpoint_static unset_environment
     (snd (call (mock_platform []) (unset_environment\<lparr>mock_endpoint_var := Some ''203.0.113.5:8080''\<rparr>)
        initial_statics ''/products'' [])) = Inr ''http://203.0.113.5:8080''"
  using
    endpoint_resolved_once [of initial_statics unset_environment "''http://127.0.0.1:9''"
      "unset_environment\<lparr>mock_endpoint_var := Some ''203.0.113.5:8080''\<rparr>"
      "mock_platform []" "''/products''" "[]" "[]"]
    endpoint_resolved_once [of initial_statics
      "unset_environment\<lparr>mock_endpoint_var := Some ''203.0.113.5:8080''\<rparr>"
      "''http://203.0.113.5:8080''" unset_environment "mock_platform []" "''/products''" "[]" "[]"]
  by (simp add: initial_statics_def unset_environment_def)

text \<open>
  Claim C5. For non-empty \<open>kinds\<close> and \<open>ids\<close>, \<^verbatim>\<open>GetProducts\<close> requests the path
  \<^verbatim>\<open>/products\<close> with a query string that has exactly \<open>length kinds\<close> pairs of key
  \<^verbatim>\<open>kinds\<close>, exactly \<open>length ids\<close> pairs of key \<^verbatim>\<open>ids\<close> and no other pair, and whose pairs
  are the percent-encoded pairs of the elements, duplicates included.
\<close>

theorem GetProducts_query_keys:
  assumes "kinds \<noteq> []" and "ids \<noteq> []"
    and "conforming_multimap P" and "form_urlencoding P"
    and "endpoint_static env st = Inr e"
    and "q = HttpFormUrlEncodedContent P (GetProducts_parameters kinds ids)"
    and "uri_valid P e (''/products?'' @ q)"
  shows "requests (snd (GetProducts P env st kinds ids)) = requests st @ [Uri e (''/products?'' @ q)] \<and>
         count_list (query_keys q) ''kinds'' = length kinds \<and>
         count_list (query_keys q) ''ids'' = length ids \<and>
         length (query_keys q) = length kinds + length ids \<and>
         mset (query_pairs q) =
           mset (map (encode_pair P) (map (Pair ''kinds'') kinds @ map (Pair ''ids'') ids))"
proof -
  let ?ps = "GetProducts_parameters kinds ids"
  let ?it = "iteration_order P ?ps"
  have perm: "mset ?it = mset ?ps" using assms(3) by (rule iteration_mset)
  have ne: "?it \<noteq> []"
    using assms(1,3) by (intro iteration_not_Nil) (simp_all add: GetProducts_parameters_eq)
  have keys: "query_keys q = map fst ?it"
    using assms by (simp add: query_keys_GetProducts)
  have pairs: "query_pairs q = map (encode_pair P) ?it"
    using assms(4,6) ne by (simp add: query_pairs_content)
  have r: "requests (snd (GetProducts P env st kinds ids)) = requests st @ [Uri e (''/products?'' @ q)]"
    using assms by (simp add: GetProducts_requests)
  have ck: "count_list (query_keys q) ''kinds'' = length kinds"
    using count_list_mset_cong [OF perm, of fst "''kinds''"] keys
    by (simp only: GetProducts_parameters_eq count_keys)
  have ci: "count_list (query_keys q) ''ids'' = length ids"
    using count_list_mset_cong [OF perm, of fst "''ids''"] keys
    by (simp only: GetProducts_parameters_eq count_keys)
  have len: "length (query_keys q) = length kinds + length ids"
    using mset_eq_length [OF perm] keys by (simp add: GetProducts_parameters_eq)
  have ms: "mset (query_pairs q) =
      mset (map (encode_pair P) (map (Pair ''kinds'') kinds @ map (Pair ''ids'') ids))"
    using perm pairs by (metis GetProducts_parameters_eq mset_map)
  from r ck ci len ms show ?thesis by blast
qed

theorem GetProducts_query_keys_witness:
  "requests (snd (GetProducts (mock_platform []) unset_environment initial_statics
       [''game'', ''a&b'', ''game''] [''9NBLGGH4R315''])) =
     [Uri ''http://127.0.0.1:9'' ''/products?kinds=game&kinds=a%26b&kinds=game&ids=9NBLGGH4R315''] \<and>
   count_list (query_keys ''kinds=game&kinds=a%26b&kinds=game&ids=9NBLGGH4R315'') ''kinds'' = 3 \<and>
   count_list (query_keys ''kinds=game&kinds=a%26b&kinds=game&ids=9NBLGGH4R315'') ''ids'' = 1 \<and>
   length (query_keys ''kinds=game&kinds=a%26b&kinds=game&ids=9NBLGGH4R315'') = 4"
proof -
  let ?P = "mock_platform []"
  let ?q = "''kinds=game&kinds=a%26b&kinds=game&ids=9NBLGGH4R315''"
  have e: "endpoint_static unset_environment initial_statics = Inr ''http://127.0.0.1:9''"
    by code_simp
  have q: "?q = HttpFormUrlEncodedContent ?P
      (GetProducts_parameters [''game'', ''a&b'', ''game''] [''9NBLGGH4R315''])"
    by code_simp
  have v: "uri_valid ?P ''http://127.0.0.1:9'' (''/products?'' @ ?q)"
    by (simp add: mock_platform_def)
  have k: "[''game'', ''a&b'', ''game''] \<noteq> []" and i: "[''9NBLGGH4R315''] \<noteq> []" by simp_all
  have r: "requests initial_statics = []" by (simp add: initial_statics_def)
  show ?thesis
    using GetProducts_query_keys [OF k i conforming_mock_platform form_urlencoding_mock_platform e q v]
    by (simp add: r)
qed

text \<open>
  Claim C6. \<^verbatim>\<open>GetProducts\<close> with an empty \<open>kinds\<close> or an empty \<open>ids\<close>, and
  \<^verbatim>\<open>GenerateUserJwt\<close> with an empty token, fail their assertion; the statics are as
  before, so no request has been issued and the endpoint has not even been resolved.
\<close>

theorem empty_arguments_fail_assertion:
  "GetProducts P env st [] ids = (Inl (AssertionFailed ''kinds vector cannot be empty''), st) \<and>
   GetProducts P env st (k # kinds) [] = (Inl (AssertionFailed ''ids vector cannot be empty''), st) \<and>
   GenerateUserJwt P env st [] userId = (Inl (AssertionFailed ''Azure AD token is required''), st)"
  by (simp add: GetProducts_def GenerateUserJwt_def)






text \<open>
  Claim C9. A product object without a member \<^verbatim>\<open>ExpirationDate\<close>, or with one that is not
  a string, makes \<^verbatim>\<open>fromJson\<close> throw, and a response that holds such a product makes the
  whole of \<^verbatim>\<open>GetProducts\<close> fail: no product list is returned, not even with an epoch
  expiration.
\<close>

theorem fromJson_missing_date_fails:
  assumes "map_of obj ''ExpirationDate'' = None \<or>
           (\<exists>v. map_of obj ''ExpirationDate'' = Some v \<and> (\<forall>s. v \<noteq> JsonString s))"
  shows "(\<exists>msg. fromJson obj = Inl (HResultError msg)) \<and>
         (kinds \<noteq> [] \<and> ids \<noteq> [] \<and>
          call P env st ''/products'' (GetProducts_parameters kinds ids) = (Inr body, st') \<and>
          GetNamedArray body ''products'' = Inr products \<and> JsonObject obj \<in> set products \<longrightarrow>
            (\<exists>f. GetProducts P env st kinds ids = (Inl f, st')))"
proof -
  have "\<exists>msg. GetNamedString obj ''ExpirationDate'' = Inl (HResultError msg)"
    using assms by (auto simp: GetNamedString_def split: IJsonValue.splits)
  then obtain msg where m: "fromJson obj = Inl (HResultError msg)"
    by (auto simp: fromJson_def bind_result_def)
  have "\<exists>f. GetProducts P env st kinds ids = (Inl f, st')"
    if h: "kinds \<noteq> []" "ids \<noteq> []"
      "call P env st ''/products'' (GetProducts_parameters kinds ids) = (Inr body, st')"
      "GetNamedArray body ''products'' = Inr products" "JsonObject obj \<in> set products"
  proof -
    obtain g where "decode_products products [] = Inl g"
      using decode_products_fails [OF h(5) m] by blast
    with h show ?thesis by (simp add: GetProducts_def bind_result_def)
  qed
  with m show ?thesis by blast
qed

theorem fromJson_missing_date_fails_witness:
  "(\<exists>msg. fromJson [(''StoreID'', JsonString ''9NBLGGH4R315'')] = Inl (HResultError msg)) \<and>
   (\<exists>f. GetProducts (mock_platform (products_response [[(''StoreID'', JsonString ''9NBLGGH4R315'')]]))
          unset_environment initial_statics [''game''] [''9NBLGGH4R315''] =
        (Inl f, \<lparr>endpoint = Some ''http://127.0.0.1:9'',
                 requests = [Uri ''http://127.0.0.1:9'' ''/products?kinds=game&ids=9NBLGGH4R315'']\<rparr>))"
proof -
  let ?obj = "[(''StoreID'', JsonString ''9NBLGGH4R315'')]"
  let ?P = "mock_platform (products_response [?obj])"
  have a: "map_of ?obj ''ExpirationDate'' = None \<or>
           (\<exists>v. map_of ?obj ''ExpirationDate'' = Some v \<and> (\<forall>s. v \<noteq> JsonString s))"
    by simp
  have c: "call ?P unset_environment initial_statics ''/products''
             (GetProducts_parameters [''game''] [''9NBLGGH4R315'']) =
           (Inr (products_response [?obj]),
            \<lparr>endpoint = Some ''http://127.0.0.1:9'',
             requests = [Uri ''http://127.0.0.1:9'' ''/products?kinds=game&ids=9NBLGGH4R315'']\<rparr>)"
    by code_simp
  have g: "GetNamedArray (products_response [?obj]) ''products'' = Inr [JsonObject ?obj]"
    by code_simp
  show ?thesis
    using fromJson_missing_date_fails [OF a, of "[''game'']" "[''9NBLGGH4R315'']" ?P
        unset_environment initial_statics "products_response [?obj]" _ "[JsonObject ?obj]"] c g
    by simp
qed

text \<open>
  Claim C10, as stated: every value of at most 19 units resolves to \<^verbatim>\<open>http://\<close> followed
  by the value. It fails for the empty value, for which \<^verbatim>\<open>GetEnvironmentVariableW\<close>
  returns 0: the endpoint is the default one and not \<^verbatim>\<open>http://\<close>.
\<close>

theorem endpoint_empty_value_counterexample:
  "endpoint_static \<lparr>mock_endpoint_var = Some [], stack_contents = []\<rparr> initial_statics
     \<noteq> Inr (''http://'' @ []) \<and>
   endpoint_static \<lparr>mock_endpoint_var = Some [], stack_contents = []\<rparr> initial_statics
     = Inr ''http://127.0.0.1:9''"
  by code_simp

text \<open>
  Claim C10, amended: for every non-empty value of at most 19 units the endpoint is
  \<^verbatim>\<open>http://\<close> followed by the value, with no validation, and \<^verbatim>\<open>buildUri\<close> keeps it in its
  static and builds its \<^verbatim>\<open>Uri\<close> on it; a value that has a scheme gets a second one.
\<close>

theorem endpoint_prefixes_value:
  assumes "mock_endpoint_var env = Some v" and "v \<noteq> []" and "length v \<le> 19"
    and "NUL \<notin> set v" and "endpoint st = None"
  shows "endpoint_static env st = Inr (''http://'' @ v) \<and>
         buildUri P env st path [] =
           (Uri_ctor P (''http://'' @ v) path, st\<lparr>endpoint := Some (''http://'' @ v)\<rparr>)"
proof -
  have "readStoreMockEndpoint env = Inr v"
    using assms by (intro readStoreMockEndpoint_fits) (simp_all add: endpointSize_def)
  then have "endpoint_static env st = Inr (''http://'' @ v)"
    using assms(5) by (rule endpoint_static_first [rotated])
  then show ?thesis by (simp add: buildUri_no_params)
qed

theorem endpoint_prefixes_value_witness:
  "endpoint_static \<lparr>mock_endpoint_var = Some ''http://host:1'', stack_contents = ''junk''\<rparr>
     initial_statics = Inr ''http://http://host:1'' \<and>
   buildUri (mock_platform []) \<lparr>mock_endpoint_var = Some ''http://host:1'', stack_contents = ''junk''\<rparr>
     initial_statics ''/products'' [] =
     (Inr (Uri ''http://http://host:1'' ''/products''),
      \<lparr>endpoint = Some ''http://http://host:1'', requests = []\<rparr>)"
proof -
  let ?env = "\<lparr>mock_endpoint_var = Some ''http://host:1'', stack_contents = ''junk''\<rparr>"
  have a: "mock_endpoint_var ?env = Some ''http://host:1''" by simp
  have b: "''http://host:1'' \<noteq> []" and c: "length ''http://host:1'' \<le> 19" by simp_all
  have d: "NUL \<notin> set ''http://host:1''" by (simp add: NUL_def)
  have e: "endpoint initial_statics = None" by (simp add: initial_statics_def)
  show ?thesis
    using endpoint_prefixes_value [OF a b c d e, of "mock_platform []" "''/products''"]
    by (simp add: Uri_ctor_def mock_platform_def initial_statics_def)
qed

end
